theory Spec2Isabelle
  imports Main "HOL-Library.Char_ord" "HOL-Library.List_Lexorder"
begin

section \<open>The sidebar manifest of the \<open>chill::path\<close> module\<close>

text \<open>
  The file \<^verbatim>\<open>doc/v0.1.1/chill/path/sidebar-items.js\<close> is one line of JavaScript:
  a call of \<^verbatim>\<open>initSidebarItems\<close> on an object literal.  The fragment of JavaScript
  syntax below is enough to write that line down as it stands, and has room for
  what the line could have contained and does not: variables, calls, function
  expressions and declarations, conditionals and loops.
\<close>

datatype expr =
    Str string
  | Arr "expr list"
  | Obj "(string \<times> expr) list"
  | Var string
  | Call expr "expr list"
  | Func "string list" "stmt list"
and stmt =
    ExprStmt expr
  | FunDecl string "string list" "stmt list"
  | IfStmt expr "stmt list" "stmt list"
  | WhileStmt expr "stmt list"
  | ReturnStmt expr

subsection \<open>The source text\<close>

text \<open>The argument of the call, entry by entry as in the source.\<close>

definition constant_entries :: expr where
  "constant_entries = Arr
    [Arr [Str ''DESIGN_PREFIX'', Str ''''],
     Arr [Str ''LOCAL_PREFIX'', Str ''''],
     Arr [Str ''VIEW_PREFIX'', Str '''']]"

definition enum_entries :: expr where
  "enum_entries = Arr
    [Arr [Str ''DocumentId'', Str ''''],
     Arr [Str ''DocumentIdRef'', Str '''']]"

definition struct_entries :: expr where
  "struct_entries = Arr
    [Arr [Str ''AttachmentName'',
          Str ''A heap-allocated attachment  name, owned and managed internally.''],
     Arr [Str ''AttachmentNameRef'',
          Str ''A reference to a attachment  name, owned elsewhere.''],
     Arr [Str ''AttachmentPath'', Str ''''],
     Arr [Str ''AttachmentPathRef'', Str ''''],
     Arr [Str ''DatabaseName'',
          Str ''A heap-allocated database  name, owned and managed internally.''],
     Arr [Str ''DatabaseNameRef'',
          Str ''A reference to a database  name, owned elsewhere.''],
     Arr [Str ''DatabasePath'', Str ''''],
     Arr [Str ''DatabasePathRef'', Str ''''],
     Arr [Str ''DesignDocumentName'',
          Str ''A heap-allocated design document  name, owned and managed internally.''],
     Arr [Str ''DesignDocumentNameRef'',
          Str ''A reference to a design document  name, owned elsewhere.''],
     Arr [Str ''DesignDocumentPath'', Str ''''],
     Arr [Str ''DesignDocumentPathRef'', Str ''''],
     Arr [Str ''DocumentPath'', Str ''''],
     Arr [Str ''DocumentPathRef'', Str ''''],
     Arr [Str ''LocalDocumentName'',
          Str ''A heap-allocated local document  name, owned and managed internally.''],
     Arr [Str ''LocalDocumentNameRef'',
          Str ''A reference to a local document  name, owned elsewhere.''],
     Arr [Str ''NormalDocumentName'',
          Str ''A heap-allocated normal document  name, owned and managed internally.''],
     Arr [Str ''NormalDocumentNameRef'',
          Str ''A reference to a normal document  name, owned elsewhere.''],
     Arr [Str ''ViewName'',
          Str ''A heap-allocated view  name, owned and managed internally.''],
     Arr [Str ''ViewNameRef'',
          Str ''A reference to a view  name, owned elsewhere.''],
     Arr [Str ''ViewPath'', Str ''''],
     Arr [Str ''ViewPathRef'', Str '''']]"

definition trait_entries :: expr where
  "trait_entries = Arr
    [Arr [Str ''IntoAttachmentPath'', Str ''''],
     Arr [Str ''IntoDatabasePath'', Str ''''],
     Arr [Str ''IntoDesignDocumentPath'', Str ''''],
     Arr [Str ''IntoDocumentPath'', Str ''''],
     Arr [Str ''IntoViewPath'', Str '''']]"

definition sidebar_items :: expr where
  "sidebar_items = Obj
    [(''constant'', constant_entries),
     (''enum'', enum_entries),
     (''struct'', struct_entries),
     (''trait'', trait_entries)]"

text \<open>The whole file: its list of top-level statements.\<close>

definition program :: "stmt list" where
  "program = [ExprStmt (Call (Var ''initSidebarItems'') [sidebar_items])]"

subsection \<open>Reading the manifest\<close>

text \<open>
  A literal is built from strings, arrays and objects only: it holds no variable,
  no call and no function.
\<close>

fun is_literal :: "expr \<Rightarrow> bool" where
  "is_literal (Str s) = True"
| "is_literal (Arr xs) = list_all is_literal xs"
| "is_literal (Obj kvs) = list_all (\<lambda>kv. is_literal (snd kv)) kvs"
| "is_literal (Var v) = False"
| "is_literal (Call f args) = False"
| "is_literal (Func ps body) = False"

text \<open>
  An entry is a two-element array of strings, \<^verbatim>\<open>[name, description]\<close>; a category
  is an array of entries.  Anything of another shape is rejected.
\<close>

fun as_entry :: "expr \<Rightarrow> (string \<times> string) option" where
  "as_entry (Arr [Str n, Str d]) = Some (n, d)"
| "as_entry _ = None"

fun as_entries :: "expr \<Rightarrow> (string \<times> string) list option" where
  "as_entries (Arr xs) = those (map as_entry xs)"
| "as_entries _ = None"

text \<open>
  Property lookup on an object literal.  Where a key is written twice JavaScript
  keeps the last value, hence the reversal.
\<close>

fun obj_get :: "expr \<Rightarrow> string \<Rightarrow> expr option" where
  "obj_get (Obj kvs) k = map_of (rev kvs) k"
| "obj_get _ k = None"

fun obj_keys :: "expr \<Rightarrow> string list" where
  "obj_keys (Obj kvs) = map fst kvs"
| "obj_keys _ = []"

text \<open>
  The entries of a category of an object: \<open>None\<close> when the key is absent or its
  value is not an array of entries.
\<close>

definition category_entries :: "expr \<Rightarrow> string \<Rightarrow> (string \<times> string) list option" where
  "category_entries obj cat = Option.bind (obj_get obj cat) as_entries"

text \<open>
  The entries of a category of the manifest, in source order; the empty list for
  a category that is absent or ill-formed.
\<close>

definition items :: "string \<Rightarrow> (string \<times> string) list" where
  "items cat =
     (case category_entries sidebar_items cat of None \<Rightarrow> [] | Some es \<Rightarrow> es)"

definition names :: "string \<Rightarrow> string list" where
  "names cat = map fst (items cat)"

definition categories :: "string list" where
  "categories = [''constant'', ''enum'', ''struct'', ''trait'']"

definition all_items :: "(string \<times> string) list" where
  "all_items = concat (map items categories)"

text \<open>\<^verbatim>\<open>s.endsWith(suf)\<close> and \<^verbatim>\<open>s.startsWith(pre)\<close>.\<close>

definition ends_with :: "string \<Rightarrow> string \<Rightarrow> bool" where
  "ends_with s suf \<longleftrightarrow>
     length suf \<le> length s \<and> drop (length s - length suf) s = suf"

definition starts_with :: "string \<Rightarrow> string \<Rightarrow> bool" where
  "starts_with s pre \<longleftrightarrow> take (length pre) s = pre"

text \<open>\<open>chop n s\<close> is \<open>s\<close> without its last \<open>n\<close> characters.\<close>

definition chop :: "nat \<Rightarrow> string \<Rightarrow> string" where
  "chop n s = take (length s - n) s"

subsection \<open>The shape of the file\<close>

text \<open>
  \<open>single_call f prog\<close> is the argument when \<open>prog\<close> is one statement, that
  statement is a call of the global \<open>f\<close>, and the call has one argument.
\<close>

fun single_call :: "string \<Rightarrow> stmt list \<Rightarrow> expr option" where
  "single_call f [ExprStmt (Call (Var g) [a])] = (if g = f then Some a else None)"
| "single_call f _ = None"

text \<open>A statement that neither declares a function nor branches, loops or returns.\<close>

fun plain_stmt :: "stmt \<Rightarrow> bool" where
  "plain_stmt (ExprStmt e) = True"
| "plain_stmt _ = False"

subsection \<open>Naming conventions\<close>

text \<open>
  The resource kinds the specification names (database, local document, normal
  document, design document, view, attachment), written as the stems of the type
  names.
\<close>

definition resource_kinds :: "string list" where
  "resource_kinds =
    [''Database'', ''LocalDocument'', ''NormalDocument'', ''DesignDocument'', ''View'',
     ''Attachment'']"

definition has_name_pair :: "string \<Rightarrow> bool" where
  "has_name_pair k \<longleftrightarrow>
     k @ ''Name'' \<in> set (names ''struct'') \<and> k @ ''NameRef'' \<in> set (names ''struct'')"

definition has_path_pair :: "string \<Rightarrow> bool" where
  "has_path_pair k \<longleftrightarrow>
     k @ ''Path'' \<in> set (names ''struct'') \<and> k @ ''PathRef'' \<in> set (names ''struct'')"

text \<open>The type names: the structs and the enumerations.\<close>

definition listed_types :: "string list" where
  "listed_types = names ''struct'' @ names ''enum''"

text \<open>The stem \<open>K\<close> of a trait name \<open>IntoKPath\<close> and of a struct name \<open>KPath\<close>.\<close>

definition trait_stem :: "string \<Rightarrow> string" where
  "trait_stem t = drop 4 (chop 4 t)"

definition path_stems :: "string list" where
  "path_stems = map (chop 4) (filter (\<lambda>s. ends_with s ''Path'') (names ''struct''))"

definition is_name_struct :: "string \<Rightarrow> bool" where
  "is_name_struct n \<longleftrightarrow> ends_with n ''Name'' \<or> ends_with n ''NameRef''"

definition is_path_struct :: "string \<Rightarrow> bool" where
  "is_path_struct n \<longleftrightarrow> ends_with n ''Path'' \<or> ends_with n ''PathRef''"

text \<open>
  The words of a stem: \<open>DesignDocument\<close> reads \<open>design document\<close>.  Every capital
  becomes its small letter, and every capital but the first opens a new word.
\<close>

definition is_upper :: "char \<Rightarrow> bool" where
  "is_upper c \<longleftrightarrow> CHR ''A'' \<le> c \<and> c \<le> CHR ''Z''"

definition to_lower :: "char \<Rightarrow> char" where
  "to_lower c = (if is_upper c then char_of (of_char c + (32::nat)) else c)"

fun words_tail :: "string \<Rightarrow> string" where
  "words_tail [] = []"
| "words_tail (c # cs) =
     (if is_upper c then CHR '' '' # to_lower c # words_tail cs else c # words_tail cs)"

fun kind_words :: "string \<Rightarrow> string" where
  "kind_words [] = []"
| "kind_words (c # cs) = to_lower c # words_tail cs"

text \<open>The two description sentences, with the two spaces the source has before \<open>name\<close>.\<close>

definition owned_sentence :: "string \<Rightarrow> string" where
  "owned_sentence kind =
     ''A heap-allocated '' @ kind @ ''  name, owned and managed internally.''"

definition ref_sentence :: "string \<Rightarrow> string" where
  "ref_sentence kind = ''A reference to a '' @ kind @ ''  name, owned elsewhere.''"

section \<open>The categories, evaluated\<close>

lemma items_constant:
  "items ''constant'' =
    [(''DESIGN_PREFIX'', ''''), (''LOCAL_PREFIX'', ''''), (''VIEW_PREFIX'', '''')]"
  by (simp add: items_def category_entries_def sidebar_items_def constant_entries_def)

lemma items_enum:
  "items ''enum'' = [(''DocumentId'', ''''), (''DocumentIdRef'', '''')]"
  by (simp add: items_def category_entries_def sidebar_items_def enum_entries_def)

lemma items_trait:
  "items ''trait'' =
    [(''IntoAttachmentPath'', ''''), (''IntoDatabasePath'', ''''),
     (''IntoDesignDocumentPath'', ''''), (''IntoDocumentPath'', ''''),
     (''IntoViewPath'', '''')]"
  by (simp add: items_def category_entries_def sidebar_items_def trait_entries_def)

lemma items_struct:
  "items ''struct'' =
    [(''AttachmentName'',
        ''A heap-allocated attachment  name, owned and managed internally.''),
     (''AttachmentNameRef'', ''A reference to a attachment  name, owned elsewhere.''),
     (''AttachmentPath'', ''''),
     (''AttachmentPathRef'', ''''),
     (''DatabaseName'',
        ''A heap-allocated database  name, owned and managed internally.''),
     (''DatabaseNameRef'', ''A reference to a database  name, owned elsewhere.''),
     (''DatabasePath'', ''''),
     (''DatabasePathRef'', ''''),
     (''DesignDocumentName'',
        ''A heap-allocated design document  name, owned and managed internally.''),
     (''DesignDocumentNameRef'',
        ''A reference to a design document  name, owned elsewhere.''),
     (''DesignDocumentPath'', ''''),
     (''DesignDocumentPathRef'', ''''),
     (''DocumentPath'', ''''),
     (''DocumentPathRef'', ''''),
     (''LocalDocumentName'',
        ''A heap-allocated local document  name, owned and managed internally.''),
     (''LocalDocumentNameRef'',
        ''A reference to a local document  name, owned elsewhere.''),
     (''NormalDocumentName'',
        ''A heap-allocated normal document  name, owned and managed internally.''),
     (''NormalDocumentNameRef'',
        ''A reference to a normal document  name, owned elsewhere.''),
     (''ViewName'', ''A heap-allocated view  name, owned and managed internally.''),
     (''ViewNameRef'', ''A reference to a view  name, owned elsewhere.''),
     (''ViewPath'', ''''),
     (''ViewPathRef'', '''')]"
  by (simp add: items_def category_entries_def sidebar_items_def struct_entries_def)

lemma names_constant:
  "names ''constant'' = [''DESIGN_PREFIX'', ''LOCAL_PREFIX'', ''VIEW_PREFIX'']"
  by (simp add: names_def items_constant)

lemma names_enum: "names ''enum'' = [''DocumentId'', ''DocumentIdRef'']"
  by (simp add: names_def items_enum)

lemma names_trait:
  "names ''trait'' =
    [''IntoAttachmentPath'', ''IntoDatabasePath'', ''IntoDesignDocumentPath'',
     ''IntoDocumentPath'', ''IntoViewPath'']"
  by (simp add: names_def items_trait)

lemma names_struct:
  "names ''struct'' =
    [''AttachmentName'', ''AttachmentNameRef'', ''AttachmentPath'', ''AttachmentPathRef'',
     ''DatabaseName'', ''DatabaseNameRef'', ''DatabasePath'', ''DatabasePathRef'',
     ''DesignDocumentName'', ''DesignDocumentNameRef'', ''DesignDocumentPath'',
     ''DesignDocumentPathRef'', ''DocumentPath'', ''DocumentPathRef'',
     ''LocalDocumentName'', ''LocalDocumentNameRef'', ''NormalDocumentName'',
     ''NormalDocumentNameRef'', ''ViewName'', ''ViewNameRef'', ''ViewPath'',
     ''ViewPathRef'']"
  by (simp add: names_def items_struct)

section \<open>The constants and the enumerations\<close>

text \<open>
  C4: the \<^verbatim>\<open>"constant"\<close> category has exactly three entries, named
  \<^verbatim>\<open>DESIGN_PREFIX\<close>, \<^verbatim>\<open>LOCAL_PREFIX\<close> and \<^verbatim>\<open>VIEW_PREFIX\<close>, and lists no other
  constant.
\<close>

theorem constant_names_exact:
  "length (items ''constant'') = 3 \<and>
   names ''constant'' = [''DESIGN_PREFIX'', ''LOCAL_PREFIX'', ''VIEW_PREFIX'']"
  by (simp add: names_def items_constant)

text \<open>
  C5: the \<^verbatim>\<open>"enum"\<close> category has exactly two entries, named \<^verbatim>\<open>DocumentId\<close>
  and \<^verbatim>\<open>DocumentIdRef\<close>, and lists no other enumeration.
\<close>

theorem enum_names_exact:
  "length (items ''enum'') = 2 \<and>
   names ''enum'' = [''DocumentId'', ''DocumentIdRef'']"
  by (simp add: names_def items_enum)

section \<open>The shape of the file\<close>

lemma sidebar_items_literal: "is_literal sidebar_items"
  by (simp add: sidebar_items_def constant_entries_def enum_entries_def
      struct_entries_def trait_entries_def)

lemma entries_one_line:
  "\<forall>(n, d) \<in> set all_items. CHR 0x0A \<notin> set n \<and> CHR 0x0A \<notin> set d"
  by (simp add: all_items_def categories_def items_constant items_enum items_struct
      items_trait)

lemma category_entries_items:
  "category_entries sidebar_items ''constant'' = Some (items ''constant'')"
  "category_entries sidebar_items ''enum'' = Some (items ''enum'')"
  "category_entries sidebar_items ''struct'' = Some (items ''struct'')"
  "category_entries sidebar_items ''trait'' = Some (items ''trait'')"
  by (simp_all add: items_def category_entries_def sidebar_items_def constant_entries_def
      enum_entries_def struct_entries_def trait_entries_def)

text \<open>
  C1: the file is exactly one call of \<^verbatim>\<open>initSidebarItems\<close>.  The call has one
  argument, a literal (so no function, variable or call occurs in it) whose keys
  are \<^verbatim>\<open>"constant"\<close>, \<^verbatim>\<open>"enum"\<close>, \<^verbatim>\<open>"struct"\<close> and \<^verbatim>\<open>"trait"\<close>, each written once and
  each bound to an array of \<^verbatim>\<open>[identifier, description]\<close> pairs of strings, none
  of which holds a line break.  No statement of the file declares a function,
  branches or loops.
\<close>

theorem file_is_single_literal_call:
  "single_call ''initSidebarItems'' program = Some sidebar_items \<and>
   length program = 1 \<and>
   list_all plain_stmt program \<and>
   is_literal sidebar_items \<and>
   obj_keys sidebar_items = [''constant'', ''enum'', ''struct'', ''trait''] \<and>
   distinct (obj_keys sidebar_items) \<and>
   (\<forall>c \<in> set (obj_keys sidebar_items).
      category_entries sidebar_items c = Some (items c)) \<and>
   (\<forall>(n, d) \<in> set all_items. CHR 0x0A \<notin> set n \<and> CHR 0x0A \<notin> set d)"
proof -
  have "single_call ''initSidebarItems'' program = Some sidebar_items"
    by (simp add: program_def)
  moreover have "length program = 1" "list_all plain_stmt program"
    by (simp_all add: program_def)
  moreover have keys: "obj_keys sidebar_items = [''constant'', ''enum'', ''struct'', ''trait'']"
    by (simp add: sidebar_items_def)
  moreover have "distinct (obj_keys sidebar_items)"
    by (simp add: keys)
  moreover have "\<forall>c \<in> set (obj_keys sidebar_items).
      category_entries sidebar_items c = Some (items c)"
    by (simp add: keys category_entries_items)
  ultimately show ?thesis
    using sidebar_items_literal entries_one_line by blast
qed

theorem file_is_single_literal_call_witness:
  "''struct'' \<in> set (obj_keys sidebar_items) \<and>
   category_entries sidebar_items ''struct'' = Some (items ''struct'')"
proof -
  have k: "''struct'' \<in> set (obj_keys sidebar_items)"
    by (simp add: sidebar_items_def)
  from file_is_single_literal_call
  have "\<forall>c \<in> set (obj_keys sidebar_items).
      category_entries sidebar_items c = Some (items c)"
    by blast
  with k show ?thesis by blast
qed

section \<open>Names and paths of the resource kinds\<close>

lemma kind_words_stems:
  "kind_words ''Attachment'' = ''attachment''"
  "kind_words ''Database'' = ''database''"
  "kind_words ''DesignDocument'' = ''design document''"
  "kind_words ''LocalDocument'' = ''local document''"
  "kind_words ''NormalDocument'' = ''normal document''"
  "kind_words ''View'' = ''view''"
  by code_simp+

lemma resource_kinds_words:
  "map kind_words resource_kinds =
    [''database'', ''local document'', ''normal document'', ''design document'', ''view'',
     ''attachment'']"
  by (simp add: resource_kinds_def kind_words_stems del: kind_words.simps)

text \<open>
  C2, as the specification states it, asks of every resource kind a \<open>Name\<close>, a
  \<open>NameRef\<close>, a \<open>Path\<close> and a \<open>PathRef\<close> struct.  Local documents have the first two
  and neither of the others.
\<close>

theorem local_document_has_no_path:
  "''LocalDocument'' \<in> set resource_kinds \<and>
   \<not> (has_name_pair ''LocalDocument'' \<and> has_path_pair ''LocalDocument'')"
  by (simp add: resource_kinds_def has_path_pair_def names_struct)

text \<open>
  C2, amended: every one of the six resource kinds has its \<open>Name\<close> and \<open>NameRef\<close>
  structs.  The \<open>Path\<close> and \<open>PathRef\<close> structs are listed for database, design
  document, view and attachment, and for no other of the six: local and normal
  documents have none of their own, and the manifest lists \<open>DocumentPath\<close> and
  \<open>DocumentPathRef\<close> for documents in general.
\<close>

theorem name_pairs_and_path_pairs:
  "(\<forall>k \<in> set resource_kinds. has_name_pair k) \<and>
   (\<forall>k \<in> set resource_kinds.
      has_path_pair k \<longleftrightarrow> k \<in> {''Database'', ''DesignDocument'', ''View'', ''Attachment''}) \<and>
   has_path_pair ''Document'' \<and>
   ''LocalDocumentPath'' \<notin> set (names ''struct'') \<and>
   ''LocalDocumentPathRef'' \<notin> set (names ''struct'') \<and>
   ''NormalDocumentPath'' \<notin> set (names ''struct'') \<and>
   ''NormalDocumentPathRef'' \<notin> set (names ''struct'')"
  by (simp add: resource_kinds_def has_name_pair_def has_path_pair_def names_struct)

theorem name_pairs_and_path_pairs_witness:
  "''Database'' \<in> set resource_kinds \<and> has_name_pair ''Database'' \<and>
   has_path_pair ''Database''"
proof -
  have k: "''Database'' \<in> set resource_kinds"
    by (simp add: resource_kinds_def)
  from name_pairs_and_path_pairs k have "has_name_pair ''Database''"
    by blast
  moreover from name_pairs_and_path_pairs k
  have "has_path_pair ''Database'' \<longleftrightarrow>
      ''Database'' \<in> {''Database'', ''DesignDocument'', ''View'', ''Attachment''}"
    by blast
  then have "has_path_pair ''Database''"
    by simp
  ultimately show ?thesis
    using k by simp
qed

section \<open>Owned and reference-taking types\<close>

text \<open>
  C3: the listed types come in pairs.  With every struct or enumeration name that
  does not end in \<open>Ref\<close> the name with \<open>Ref\<close> appended is listed, and every listed
  name that ends in \<open>Ref\<close> is a listed name not ending in \<open>Ref\<close> with \<open>Ref\<close>
  appended.
\<close>

theorem types_come_in_pairs:
  "(\<forall>t \<in> set listed_types. \<not> ends_with t ''Ref'' \<longrightarrow> t @ ''Ref'' \<in> set listed_types) \<and>
   (\<forall>r \<in> set listed_types. ends_with r ''Ref'' \<longrightarrow>
      (\<exists>t \<in> set listed_types. \<not> ends_with t ''Ref'' \<and> r = t @ ''Ref''))"
  by (simp add: listed_types_def names_struct names_enum ends_with_def)

theorem types_come_in_pairs_witness:
  "''DocumentPath'' \<in> set listed_types \<and> \<not> ends_with ''DocumentPath'' ''Ref'' \<and>
   ''DocumentPath'' @ ''Ref'' \<in> set listed_types \<and>
   ''DocumentIdRef'' \<in> set listed_types \<and> ends_with ''DocumentIdRef'' ''Ref'' \<and>
   (\<exists>t \<in> set listed_types. \<not> ends_with t ''Ref'' \<and> ''DocumentIdRef'' = t @ ''Ref'')"
proof -
  have a: "''DocumentPath'' \<in> set listed_types"
    and b: "\<not> ends_with ''DocumentPath'' ''Ref''"
    and c: "''DocumentIdRef'' \<in> set listed_types"
    and d: "ends_with ''DocumentIdRef'' ''Ref''"
    by (simp_all add: listed_types_def names_struct names_enum ends_with_def)
  from types_come_in_pairs a b have "''DocumentPath'' @ ''Ref'' \<in> set listed_types"
    by blast
  moreover from types_come_in_pairs c d
  have "\<exists>t \<in> set listed_types. \<not> ends_with t ''Ref'' \<and> ''DocumentIdRef'' = t @ ''Ref''"
    by blast
  ultimately show ?thesis
    using a b c d by blast
qed

section \<open>The traits\<close>

text \<open>
  C6: the \<^verbatim>\<open>"trait"\<close> category has exactly five entries, and each trait name is
  \<open>Into\<close>, a non-empty kind, \<open>Path\<close>: it starts with \<open>Into\<close> and ends with \<open>Path\<close>.
\<close>

theorem traits_are_into_path:
  "length (items ''trait'') = 5 \<and>
   (\<forall>t \<in> set (names ''trait'').
      starts_with t ''Into'' \<and> ends_with t ''Path'' \<and>
      trait_stem t \<noteq> [] \<and> t = ''Into'' @ trait_stem t @ ''Path'')"
  by (simp add: names_trait items_trait starts_with_def ends_with_def trait_stem_def
      chop_def)

theorem traits_are_into_path_witness:
  "''IntoViewPath'' \<in> set (names ''trait'') \<and>
   starts_with ''IntoViewPath'' ''Into'' \<and> ends_with ''IntoViewPath'' ''Path'' \<and>
   trait_stem ''IntoViewPath'' = ''View''"
proof -
  have m: "''IntoViewPath'' \<in> set (names ''trait'')"
    by (simp add: names_trait)
  from traits_are_into_path m
  have "starts_with ''IntoViewPath'' ''Into'' \<and> ends_with ''IntoViewPath'' ''Path''"
    by blast
  moreover have "trait_stem ''IntoViewPath'' = ''View''"
    by (simp add: trait_stem_def chop_def)
  ultimately show ?thesis
    using m by simp
qed

text \<open>
  C10: the kinds of the traits are the kinds of the \<open>Path\<close> structs, namely
  Attachment, Database, DesignDocument, Document and View.  For every trait
  \<open>IntoKPath\<close> the structs \<open>KPath\<close> and \<open>KPathRef\<close> are listed, and for every
  struct \<open>KPath\<close> the trait \<open>IntoKPath\<close> is listed.
\<close>

theorem trait_kinds_are_path_kinds:
  "set (map trait_stem (names ''trait'')) = set path_stems \<and>
   set path_stems =
     {''Attachment'', ''Database'', ''DesignDocument'', ''Document'', ''View''} \<and>
   length (names ''trait'') = 5 \<and>
   (\<forall>t \<in> set (names ''trait'').
      t = ''Into'' @ trait_stem t @ ''Path'' \<and>
      trait_stem t @ ''Path'' \<in> set (names ''struct'') \<and>
      trait_stem t @ ''PathRef'' \<in> set (names ''struct'')) \<and>
   (\<forall>s \<in> set (names ''struct'').
      ends_with s ''Path'' \<longrightarrow> ''Into'' @ s \<in> set (names ''trait''))"
proof -
  have stems: "map trait_stem (names ''trait'') =
      [''Attachment'', ''Database'', ''DesignDocument'', ''Document'', ''View'']"
    by (simp add: names_trait trait_stem_def chop_def)
  have paths: "path_stems =
      [''Attachment'', ''Database'', ''DesignDocument'', ''Document'', ''View'']"
    by (simp add: path_stems_def names_struct ends_with_def chop_def)
  have "set (map trait_stem (names ''trait'')) = set path_stems"
    by (simp only: stems paths)
  moreover have "set path_stems =
      {''Attachment'', ''Database'', ''DesignDocument'', ''Document'', ''View''}"
    by (simp only: paths list.set)
  moreover have "length (names ''trait'') = 5"
    by (simp add: names_trait)
  moreover have "\<forall>t \<in> set (names ''trait'').
      t = ''Into'' @ trait_stem t @ ''Path'' \<and>
      trait_stem t @ ''Path'' \<in> set (names ''struct'') \<and>
      trait_stem t @ ''PathRef'' \<in> set (names ''struct'')"
    by (simp add: names_trait names_struct trait_stem_def chop_def)
  moreover have "\<forall>s \<in> set (names ''struct'').
      ends_with s ''Path'' \<longrightarrow> ''Into'' @ s \<in> set (names ''trait'')"
    by (simp add: names_trait names_struct ends_with_def)
  ultimately show ?thesis
    by blast
qed

theorem trait_kinds_are_path_kinds_witness:
  "''IntoDocumentPath'' \<in> set (names ''trait'') \<and>
   trait_stem ''IntoDocumentPath'' = ''Document'' \<and>
   ''DocumentPath'' \<in> set (names ''struct'') \<and>
   ''DocumentPathRef'' \<in> set (names ''struct'') \<and>
   ends_with ''DocumentPath'' ''Path'' \<and>
   ''Into'' @ ''DocumentPath'' \<in> set (names ''trait'')"
proof -
  have m: "''IntoDocumentPath'' \<in> set (names ''trait'')"
    by (simp add: names_trait)
  have st: "trait_stem ''IntoDocumentPath'' = ''Document''"
    by (simp add: trait_stem_def chop_def)
  from trait_kinds_are_path_kinds m
  have "trait_stem ''IntoDocumentPath'' @ ''Path'' \<in> set (names ''struct'') \<and>
      trait_stem ''IntoDocumentPath'' @ ''PathRef'' \<in> set (names ''struct'')"
    by blast
  then have s: "''DocumentPath'' \<in> set (names ''struct'')"
    and r: "''DocumentPathRef'' \<in> set (names ''struct'')"
    by (simp_all add: st)
  have e: "ends_with ''DocumentPath'' ''Path''"
    by (simp add: ends_with_def)
  from trait_kinds_are_path_kinds s e
  have "''Into'' @ ''DocumentPath'' \<in> set (names ''trait'')"
    by blast
  then show ?thesis
    using m st s r e by blast
qed

section \<open>Descriptions\<close>

text \<open>
  C7: a struct whose name ends in \<open>Name\<close> has the description
  \<^verbatim>\<open>A heap-allocated <kind>  name, owned and managed internally.\<close>
  and a struct whose name ends in \<open>NameRef\<close> has the description
  \<^verbatim>\<open>A reference to a <kind>  name, owned elsewhere.\<close>
  where \<^verbatim>\<open><kind>\<close> is the words of the struct's resource kind, followed by two
  spaces.
\<close>

theorem name_struct_descriptions:
  "\<forall>(n, d) \<in> set (items ''struct'').
     (ends_with n ''Name'' \<longrightarrow> d = owned_sentence (kind_words (chop 4 n))) \<and>
     (ends_with n ''NameRef'' \<longrightarrow> d = ref_sentence (kind_words (chop 7 n)))"
  by (simp add: items_struct ends_with_def chop_def owned_sentence_def ref_sentence_def
      kind_words_stems del: kind_words.simps)

theorem name_struct_descriptions_witness:
  "(''DesignDocumentName'',
      ''A heap-allocated design document  name, owned and managed internally.'')
     \<in> set (items ''struct'') \<and>
   ends_with ''DesignDocumentName'' ''Name'' \<and>
   ''A heap-allocated design document  name, owned and managed internally.'' =
     owned_sentence (kind_words (chop 4 ''DesignDocumentName''))"
proof -
  have a: "(''DesignDocumentName'',
      ''A heap-allocated design document  name, owned and managed internally.'')
     \<in> set (items ''struct'')"
    by (simp add: items_struct)
  have c: "ends_with ''DesignDocumentName'' ''Name''"
    by (simp add: ends_with_def)
  have "ends_with ''DesignDocumentName'' ''Name'' \<longrightarrow>
      ''A heap-allocated design document  name, owned and managed internally.'' =
      owned_sentence (kind_words (chop 4 ''DesignDocumentName''))"
    using bspec [OF name_struct_descriptions a] unfolding prod.case by (rule conjunct1)
  with a c show ?thesis
    by (simp only: simp_thms)
qed

text \<open>
  C9: every item that is not one of the twelve \<open>Name\<close> and \<open>NameRef\<close> structs has
  the empty description.  Those items are the three constants, the two
  enumerations, the ten \<open>Path\<close> and \<open>PathRef\<close> structs and the five traits.
\<close>

theorem other_descriptions_empty:
  "(\<forall>(n, d) \<in> set all_items. \<not> is_name_struct n \<longrightarrow> d = '''') \<and>
   filter is_name_struct (map fst all_items) = filter is_name_struct (names ''struct'') \<and>
   length (filter is_name_struct (names ''struct'')) = 12 \<and>
   filter (\<lambda>n. \<not> is_name_struct n) (names ''struct'') =
     filter is_path_struct (names ''struct'') \<and>
   length (filter is_path_struct (names ''struct'')) = 10 \<and>
   length (names ''constant'') = 3 \<and> length (names ''enum'') = 2 \<and>
   length (names ''trait'') = 5"
proof -
  have "\<forall>(n, d) \<in> set all_items. \<not> is_name_struct n \<longrightarrow> d = ''''"
    by (simp add: all_items_def categories_def items_constant items_enum items_struct
        items_trait is_name_struct_def ends_with_def)
  moreover have "filter is_name_struct (map fst all_items) =
      filter is_name_struct (names ''struct'')"
    by (simp add: all_items_def categories_def names_def items_constant items_enum
        items_struct items_trait is_name_struct_def ends_with_def)
  moreover have "length (filter is_name_struct (names ''struct'')) = 12"
    by (simp add: names_struct is_name_struct_def ends_with_def)
  moreover have "filter (\<lambda>n. \<not> is_name_struct n) (names ''struct'') =
      filter is_path_struct (names ''struct'')"
    by (simp add: names_struct is_name_struct_def is_path_struct_def ends_with_def)
  moreover have "length (filter is_path_struct (names ''struct'')) = 10"
    by (simp add: names_struct is_path_struct_def ends_with_def)
  moreover have "length (names ''constant'') = 3" "length (names ''enum'') = 2"
      "length (names ''trait'') = 5"
    by (simp_all add: names_constant names_enum names_trait)
  ultimately show ?thesis
    by blast
qed

theorem other_descriptions_empty_witness:
  "(''IntoViewPath'', '''') \<in> set all_items \<and> \<not> is_name_struct ''IntoViewPath'' \<and>
   snd (''IntoViewPath'', '''') = ''''"
proof -
  have a: "(''IntoViewPath'', '''') \<in> set all_items"
    by (simp add: all_items_def categories_def items_trait)
  have b: "\<not> is_name_struct ''IntoViewPath''"
    by (simp add: is_name_struct_def ends_with_def)
  have "\<not> is_name_struct ''IntoViewPath'' \<longrightarrow> '''' = (''''::string)"
    using bspec [OF conjunct1 [OF other_descriptions_empty] a] unfolding prod.case .
  with a b show ?thesis
    by simp
qed

section \<open>Order and uniqueness\<close>

text \<open>
  C8: within each of the four categories the names stand in strictly ascending
  lexicographic order, and no name occurs twice in the whole manifest.
\<close>

theorem names_ascending_and_unique:
  "(\<forall>c \<in> set categories. sorted_wrt (<) (names c)) \<and>
   distinct (concat (map names categories))"
  by (simp add: categories_def names_constant names_enum names_struct names_trait)

theorem names_ascending_and_unique_witness:
  "''struct'' \<in> set categories \<and> sorted_wrt (<) (names ''struct'') \<and>
   ''DatabasePathRef'' < ''DesignDocumentName''"
proof -
  have c: "''struct'' \<in> set categories"
    by (simp add: categories_def)
  from names_ascending_and_unique c have "sorted_wrt (<) (names ''struct'')"
    by blast
  then show ?thesis
    using c by simp
qed

end
